theory Spec2Isabelle imports Main "HOL-Library.Word" begin

section \<open>MCTP serial links and the EID pool (MctpSerialLink.py)\<close>

text \<open>
  Every \<open>assert\<close> of the two source files raises a Python \<open>AssertionError\<close>;
  the assertions differ only in their message. One constructor stands for each
  assertion, named after what the message says. The others are exceptions raised by the
  library calls the code makes without a \<open>try\<close> around them, or inside one that
  catches them: \<open>ValueError\<close> by \<open>list.remove\<close> for an absent element and by
  \<open>int\<close> for a string of more digits than the interpreter converts,
  an \<open>OSError\<close> (\<open>ProcessLookupError\<close> or \<open>PermissionError\<close>) by
  \<open>os.kill\<close>, and \<open>DBusError\<close> (a \<open>DBusException\<close>) by a call on
  the bus.
\<close>

datatype os_error = ProcessLookupError | PermissionError

datatype error =
    SecondController       \<comment> \<open>Invalid attempt to create a second MctpBusController object\<close>
  | NoSearchPatterns       \<comment> \<open>No serial device search patterns are specified\<close>
  | NoDevicesMatch         \<comment> \<open>No serial devices match search pattern(s)\<close>
  | NotEnoughEids          \<comment> \<open>Not enough EIDs to support targeted interfaces\<close>
  | StabilizationTimeout   \<comment> \<open>Endpoint discovery did not stabilize within 30 seconds.\<close>
  | InvalidRangeValues     \<comment> \<open>invalid values for dynamic_eid_range in ...\<close>
  | RangeParseError        \<comment> \<open>Error parsing dynamic_eid_range in ...\<close>
  | RangeNotFound          \<comment> \<open>dynamic_eid_range not found in ...\<close>
  | EidsExhausted          \<comment> \<open>Unable to allocate EID for ... All EIDs have been allocated.\<close>
  | DevicePathNotFound     \<comment> \<open>Device path not found for ...\<close>
  | InterfaceTimeout       \<comment> \<open>Timeout error waiting for newly bound network interface for ...\<close>
  | LinkUpFailed           \<comment> \<open>unable to bring up link associated with ...\<close>
  | AddressAddFailed       \<comment> \<open>unable to assign eid to link associated with ...\<close>
  | ServiceCheckFailed     \<comment> \<open>assert False in _is_service_active\<close>
  | ValueError
  | OSError os_error
  | DBusError

text \<open>
  What the program does to the outside world is recorded, in order, as a list of events:
  text written to standard output, the commands of the \<open>mctp\<close> tool, the signal sent
  by \<open>os.kill\<close>, the \<open>systemctl\<close> calls on \<open>mctpd.service\<close> and
  the datagram handed to the socket.
\<close>

datatype event =
    Print string
  | BindSerial string        \<comment> \<open>sudo mctp link serial <device_path>\<close>
  | LinkSetUp string         \<comment> \<open>sudo mctp link set <link_name> up\<close>
  | AddressAdd int string    \<comment> \<open>sudo mctp address add <eid> dev <link_name>\<close>
  | Kill nat                 \<comment> \<open>os.kill(pid, SIGTERM)\<close>
  | ServiceStop              \<comment> \<open>sudo systemctl stop mctpd.service\<close>
  | ServiceStart             \<comment> \<open>sudo systemctl start mctpd.service\<close>
  | SendTo "8 word list" "8 word list"   \<comment> \<open>sock.sendto(payload, sockaddr)\<close>

fun is_print :: "event \<Rightarrow> bool" where
  "is_print (Print s) = True"
| "is_print e = False"

text \<open>The four instance attributes of an \<open>MctpSerialLink\<close>; \<open>None\<close> is Python's None.\<close>

record serial_link =
  eid :: "int option"
  link_pid :: "nat option"
  link_name :: "string option"
  device_path :: "string option"

text \<open>The attributes of an \<open>MctpBusController\<close> that the program logic reads.\<close>

record controller =
  eid_range :: "int list"
  serial_links :: "nat list"

text \<open>
  The state of the Python process. Objects live in a heap and are referred to by their
  index in it, so that \<open>self in _assigned_links\<close> is a test on identity as in
  Python (the class defines no \<open>__eq__\<close>). \<open>assigned_links\<close> and
  \<open>allocated_eids\<close> are the class attributes of \<open>MctpSerialLink\<close>,
  \<open>instance_slot\<close> is \<open>MctpBusController._instance\<close>.
\<close>

record process =
  heap :: "serial_link list"
  controllers :: "controller list"
  assigned_links :: "nat list"
  allocated_eids :: "int list"
  instance_slot :: "nat option"
  trace :: "event list"

definition initial :: process where
  "initial = \<lparr>heap = [], controllers = [], assigned_links = [], allocated_eids = [],
     instance_slot = None, trace = []\<rparr>"

definition emit :: "event \<Rightarrow> process \<Rightarrow> process" where
  "emit e st = st\<lparr>trace := trace st @ [e]\<rparr>"

definition upd_link :: "nat \<Rightarrow> (serial_link \<Rightarrow> serial_link) \<Rightarrow> process \<Rightarrow> process" where
  "upd_link self f st = st\<lparr>heap := (heap st)[self := f (heap st ! self)]\<rparr>"

text \<open>
  What the operating system answers during one \<open>MctpSerialLink.__init__\<close>:
  whether \<open>os.path.exists\<close> holds, the pid of the spawned \<open>mctp link serial\<close>
  process, the interface name \<open>_wait_for_new_interface\<close> returns (\<open>None\<close> after
  its two seconds), and the return codes of the two \<open>subprocess.run\<close> calls.
  \<open>pick\<close> stands for the iteration order of a Python set, which the language leaves
  open: \<open>list(set(...))[0]\<close> may be any element of the set.
\<close>

record link_env =
  path_exists :: bool
  pid :: nat
  new_interface :: "string option"
  up_returncode :: int
  add_returncode :: int
  pick :: nat

text \<open>\<open>list(set(allowed_eids) - set(MctpSerialLink._allocated_eids))\<close>\<close>

definition remaining_eids :: "int list \<Rightarrow> int list \<Rightarrow> int list" where
  "remaining_eids allowed_eids allocated =
     filter (\<lambda>e. e \<notin> set allocated) (remdups allowed_eids)"

text \<open>
  \<open>MctpSerialLink.__init__(self, device_path, allowed_eids)\<close>. The result is the
  new object (its heap index) or the assertion that failed, with the process state at
  that moment: an object whose construction failed stays in the heap with the attributes
  it had been given, as it does in Python until it is collected.
\<close>

definition link_init ::
  "link_env \<Rightarrow> string \<Rightarrow> int list \<Rightarrow> process \<Rightarrow> (error + nat) \<times> process" where
  "link_init env dev allowed_eids st =
    (let self = length (heap st);
         st0 = st\<lparr>heap := heap st @
                 [\<lparr>eid = None, link_pid = None, link_name = None, device_path = None\<rparr>]\<rparr>;
         remaining = remaining_eids allowed_eids (allocated_eids st0)
     in if \<not> length remaining > 0 then (Inl EidsExhausted, st0)
        else
          let next_eid = remaining ! (pick env mod length remaining) in
          if \<not> path_exists env then (Inl DevicePathNotFound, st0)
          else
            let st1 = upd_link self (\<lambda>l. l\<lparr>device_path := Some dev\<rparr>) st0;
                st2 = emit (BindSerial dev) st1;
                st3 = upd_link self (\<lambda>l. l\<lparr>link_pid := Some (pid env)\<rparr>) st2;
                st4 = upd_link self (\<lambda>l. l\<lparr>link_name := new_interface env\<rparr>) st3
            in case new_interface env of
                 None \<Rightarrow> (Inl InterfaceTimeout, st4)
               | Some name \<Rightarrow>
                   let st5 = emit (LinkSetUp name) st4 in
                   if up_returncode env \<noteq> 0 then (Inl LinkUpFailed, st5)
                   else
                     let st6 = emit (AddressAdd next_eid name) st5 in
                     if add_returncode env \<noteq> 0 then (Inl AddressAddFailed, st6)
                     else
                       let st7 = st6\<lparr>assigned_links := assigned_links st6 @ [self]\<rparr>;
                           st8 = upd_link self (\<lambda>l. l\<lparr>eid := Some next_eid\<rparr>) st7;
                           st9 = st8\<lparr>allocated_eids := allocated_eids st8 @ [next_eid]\<rparr>
                       in (Inr self, st9))"

text \<open>\<open>xs.remove(x)\<close>: deletes the first occurrence, raises ValueError when there is none.\<close>

definition py_remove :: "'a \<Rightarrow> 'a list \<Rightarrow> error + 'a list" where
  "py_remove x xs = (if x \<in> set xs then Inr (remove1 x xs) else Inl ValueError)"

text \<open>
  Statements run one after the other; an exception raised by one skips the rest and
  leaves the state as it was when it was raised.
\<close>

definition and_then ::
  "(error + unit) \<times> process \<Rightarrow> (process \<Rightarrow> (error + unit) \<times> process) \<Rightarrow> (error + unit) \<times> process" where
  "and_then r f = (case r of (Inl err, st) \<Rightarrow> (Inl err, st) | (Inr u, st) \<Rightarrow> f st)"

definition ok :: "process \<Rightarrow> (error + unit) \<times> process" where
  "ok st = (Inr (), st)"

text \<open>
  \<open>MctpSerialLink.close(self)\<close>, which \<open>__del__\<close> calls too, statement by
  statement. \<open>os.kill\<close> is called without a \<open>try\<close>: the argument \<open>kill\<close>
  is what the operating system answers to it, \<open>None\<close> when the signal is
  delivered (an event of the trace), or the exception raised, as
  \<open>ProcessLookupError\<close> for a process that has exited and been reaped. An
  exception ends \<open>close()\<close> before any of the statements that follow.
\<close>

definition close_kill :: "os_error option \<Rightarrow> nat \<Rightarrow> process \<Rightarrow> (error + unit) \<times> process" where
  "close_kill kill self st =
     (case link_pid (heap st ! self) of
        Some p \<Rightarrow> (case kill of
                    None \<Rightarrow> ok (emit (Kill p) st)
                  | Some err \<Rightarrow> (Inl (OSError err), st))
      | None \<Rightarrow> ok st)"

definition close_unregister :: "nat \<Rightarrow> process \<Rightarrow> (error + unit) \<times> process" where
  "close_unregister self st =
     (if self \<in> set (assigned_links st)
      then (case py_remove self (assigned_links st) of
              Inl err \<Rightarrow> (Inl err, st)
            | Inr ls \<Rightarrow> ok (st\<lparr>assigned_links := ls\<rparr>))
      else ok st)"

text \<open>\<open>self._eid in _allocated_eids\<close> is false when \<open>self._eid\<close> is None: the list holds integers.\<close>

definition close_release :: "nat \<Rightarrow> process \<Rightarrow> (error + unit) \<times> process" where
  "close_release self st =
     (case eid (heap st ! self) of
        None \<Rightarrow> ok st
      | Some e \<Rightarrow>
          if e \<in> set (allocated_eids st)
          then (case py_remove e (allocated_eids st) of
                  Inl err \<Rightarrow> (Inl err, st)
                | Inr es \<Rightarrow> ok (st\<lparr>allocated_eids := es\<rparr>))
          else ok st)"

definition close_clear :: "nat \<Rightarrow> process \<Rightarrow> (error + unit) \<times> process" where
  "close_clear self st =
     ok (upd_link self (\<lambda>l. l\<lparr>link_name := None, eid := None,
                               link_pid := None, device_path := None\<rparr>) st)"

definition link_close :: "os_error option \<Rightarrow> nat \<Rightarrow> process \<Rightarrow> (error + unit) \<times> process" where
  "link_close kill self st =
     and_then (and_then (and_then (close_kill kill self st) (close_unregister self))
                 (close_release self)) (close_clear self)"

text \<open>
  A run of the link manager against one configured range: each step constructs a link
  for a device path (with whatever the operating system answers) or closes an object of
  the heap, be it open, closed already or left over from a failed construction, with
  whatever \<open>os.kill\<close> answers.
\<close>

datatype op = Open string link_env | Close nat "os_error option"

fun step :: "int list \<Rightarrow> process \<Rightarrow> op \<Rightarrow> process" where
  "step rng st (Open dev env) = snd (link_init env dev rng st)"
| "step rng st (Close self kill) =
     (if self < length (heap st) then snd (link_close kill self st) else st)"

definition run :: "int list \<Rightarrow> op list \<Rightarrow> process" where
  "run rng ops = foldl (step rng) initial ops"

section \<open>The configuration source (MctpBusController._configure_eid_range)\<close>

text \<open>
  A line of the file is a string of characters with code points below 256. \<open>\s\<close> of
  a Python \<open>str\<close> pattern matches the characters for which \<open>str.isspace\<close>
  holds: there, tab to carriage return, the four separators 0x1c to 0x1f, the blank,
  next line (0x85) and the no-break space (0xa0). \<open>\d\<close> matches the decimal
  digits, there the ten ASCII digits.
\<close>

definition is_space :: "char \<Rightarrow> bool" where
  "is_space c = ((of_char c :: nat) \<in> {9, 10, 11, 12, 13, 28, 29, 30, 31, 32, 133, 160})"

definition is_digit :: "char \<Rightarrow> bool" where
  "is_digit c = (48 \<le> (of_char c :: nat) \<and> (of_char c :: nat) \<le> 57)"

text \<open>
  \<open>int(num)\<close> on a string of digits. Python integers are unbounded, but the
  interpreter converts a decimal string only up to \<open>sys.int_max_str_digits\<close>
  digits, 4300 unless it is configured otherwise, and raises \<open>ValueError\<close> for a
  longer one.
\<close>

definition int_max_str_digits :: nat where
  "int_max_str_digits = 4300"

definition digits_value :: "string \<Rightarrow> int" where
  "digits_value ds = foldl (\<lambda>a c. 10 * a + (of_char c - 48)) 0 ds"

definition py_int :: "string \<Rightarrow> error + int" where
  "py_int ds = (if length ds > int_max_str_digits then Inl ValueError else Inr (digits_value ds))"

text \<open>\<open>s.startswith(p)\<close>\<close>

definition startswith :: "string \<Rightarrow> string \<Rightarrow> bool" where
  "startswith s p = (take (length p) s = p)"

text \<open>
  The pattern \<^verbatim>\<open>\[\s*(\d+)\s*,\s*(\d+)\s*\]\<close> matched at the head of a string; the
  result is the two groups. Blanks, digits, the comma and the bracket exclude each
  other, so each starred or plussed part takes the longest run and nothing else can
  match.
\<close>

definition match_here :: "string \<Rightarrow> (string \<times> string) option" where
  "match_here s =
     (case s of
        [] \<Rightarrow> None
      | c # r \<Rightarrow>
          if c \<noteq> CHR ''['' then None
          else
            let r1 = dropWhile is_space r;
                num1 = takeWhile is_digit r1;
                r2 = dropWhile is_space (dropWhile is_digit r1)
            in if num1 = [] then None
               else (case r2 of
                       [] \<Rightarrow> None
                     | c2 # r3 \<Rightarrow>
                         if c2 \<noteq> CHR '','' then None
                         else
                           let r4 = dropWhile is_space r3;
                               num2 = takeWhile is_digit r4;
                               r5 = dropWhile is_space (dropWhile is_digit r4)
                           in if num2 = [] then None
                              else (case r5 of
                                      [] \<Rightarrow> None
                                    | c3 # r6 \<Rightarrow>
                                        if c3 \<noteq> CHR '']'' then None
                                        else Some (num1, num2))))"

text \<open>\<open>re.search(pattern, line)\<close>: the match at the leftmost position that has one.\<close>

fun re_search :: "string \<Rightarrow> (string \<times> string) option" where
  "re_search [] = match_here []"
| "re_search (c # r) =
     (case match_here (c # r) of Some g \<Rightarrow> Some g | None \<Rightarrow> re_search r)"

text \<open>
  The body of the \<open>try\<close> block, over the lines of the open file: the first line that
  starts with the keyword decides; \<open>range(start, end+1)\<close> is the list of the integers
  from \<open>start\<close> to \<open>end\<close>. An \<open>Inl\<close> is the exception raised inside the block.
\<close>

fun scan_lines :: "string list \<Rightarrow> error + int list" where
  "scan_lines [] = Inl RangeNotFound"
| "scan_lines (line # rest) =
     (if startswith line ''dynamic_eid_range''
      then (case re_search line of
              Some (num1, num2) \<Rightarrow>
                (case py_int num1 of
                   Inl err \<Rightarrow> Inl err
                 | Inr n1 \<Rightarrow>
                     (case py_int num2 of
                        Inl err \<Rightarrow> Inl err
                      | Inr n2 \<Rightarrow>
                          let start = min n1 n2;
                              end = max n1 n2
                          in if start > 0 \<and> end > 0 then Inr [start..end]
                             else Inl InvalidRangeValues))
            | None \<Rightarrow> Inl RangeParseError)
      else scan_lines rest)"

text \<open>
  A declaration line for the bounds \<open>s\<close> and \<open>e\<close>, written in decimal: the keyword,
  any text without an opening bracket, and the bracketed pair with any blanks around
  the numbers. It is used to state how such lines are parsed.
\<close>

definition digit_char :: "nat \<Rightarrow> char" where
  "digit_char d = char_of (48 + d)"

fun digits :: "nat \<Rightarrow> string" where
  "digits n = (if n < 10 then [digit_char n] else digits (n div 10) @ [digit_char (n mod 10)])"

declare digits.simps [simp del]


text \<open>
  The text of the exceptions of the block, which \<open>print\<close> shows when they are
  caught (that of the \<open>ValueError\<close> goes on with the number of digits found).
\<close>

fun exception_text :: "error \<Rightarrow> string \<Rightarrow> string" where
  "exception_text InvalidRangeValues p = ''invalid values for dynamic_eid_range in '' @ p"
| "exception_text RangeParseError p = ''Error parsing dynamic_eid_range in '' @ p"
| "exception_text RangeNotFound p = ''dynamic_eid_range not found in '' @ p"
| "exception_text ValueError p = ''Exceeds the limit (4300 digits) for integer string conversion''"
| "exception_text err p = []"

section \<open>The bus tree walker and the controller (MctpBusController.py)\<close>

text \<open>
  The object hierarchy that the \<open>mctpd\<close> daemon exposes on D-Bus, as far as the
  program reads it: an object has a name, children (what \<open>Introspect\<close> lists) and
  the answer to the two \<open>Get\<close> calls on the endpoint interface, the pair of its
  \<open>EID\<close> and \<open>NetworkId\<close>, or \<open>None\<close> where they raise a
  \<open>DBusException\<close>.
\<close>

datatype dbus_node = Node string "(int \<times> int) option" "dbus_node list"

text \<open>
  What lies outside the process during one construction of the controller: the lines of
  a file (\<open>None\<close> where \<open>open\<close> raises \<open>FileNotFoundError\<close>), the paths
  \<open>glob.glob\<close> returns for a pattern, the answers of the operating system to the
  construction of the link for a device path, whether \<open>systemctl is-active\<close> returns 0
  (\<open>None\<close> where running it raises), the object tree the daemon exposes at the k-th
  discovery of the stabilization loop (\<open>None\<close> where a call on the bus raises outside
  the \<open>try\<close> of \<open>_get_properties\<close>, as when the daemon cannot be reached), the
  milliseconds the k-th round of that loop takes beyond its one second of sleep, and
  what \<open>os.kill\<close> answers when a link object is closed.
\<close>

record world =
  config_file :: "string \<Rightarrow> string list option"
  glob :: "string \<Rightarrow> string list"
  link_env_of :: "string \<Rightarrow> link_env"
  service_active :: "bool option"
  bus_at :: "nat \<Rightarrow> dbus_node option"
  poll_ms :: "nat \<Rightarrow> nat"
  kill_answer :: "nat \<Rightarrow> os_error option"

definition upd_controller :: "nat \<Rightarrow> (controller \<Rightarrow> controller) \<Rightarrow> process \<Rightarrow> process" where
  "upd_controller self f st = st\<lparr>controllers := (controllers st)[self := f (controllers st ! self)]\<rparr>"

text \<open>
  \<open>_configure_eid_range(self, config_file_path)\<close>. The \<open>try\<close> block is followed by
  \<open>except FileNotFoundError\<close> and \<open>except Exception\<close>, which print and return: an
  assertion raised in the block is an \<open>Exception\<close> and ends there. \<open>self._eid_range\<close>
  is assigned on the one path that reaches the assignment.
\<close>

definition configure_eid_range :: "world \<Rightarrow> nat \<Rightarrow> string \<Rightarrow> process \<Rightarrow> process" where
  "configure_eid_range w self config_file_path st =
     (case config_file w config_file_path of
        None \<Rightarrow>
          emit (Print (''Error: File '' @ [CHR 0x27] @ config_file_path @ [CHR 0x27] @ '' not found.'')) st
      | Some lines \<Rightarrow>
          (case scan_lines lines of
             Inl err \<Rightarrow>
               emit (Print (''Error when reading '' @ config_file_path @ '': ''
                            @ exception_text err config_file_path)) st
           | Inr r \<Rightarrow> upd_controller self (\<lambda>c. c\<lparr>eid_range := r\<rparr>) st))"

text \<open>The values stored in the dictionary that describes an endpoint.\<close>

datatype pyval = PInt int | PStr string | PNone

fun str_or_none :: "string option \<Rightarrow> pyval" where
  "str_or_none None = PNone"
| "str_or_none (Some s) = PStr s"

text \<open>\<open>_get_link_from_eid(self, eid)\<close>, over the heap and \<open>self._serial_links\<close>.\<close>

fun get_link_from_eid :: "serial_link list \<Rightarrow> nat list \<Rightarrow> int \<Rightarrow> nat option" where
  "get_link_from_eid h [] e = None"
| "get_link_from_eid h (link # links) e =
     (if eid (h ! link) = Some e then Some link else get_link_from_eid h links e)"

text \<open>
  \<open>_get_properties(self, path)\<close>; the last argument is what the two \<open>Get\<close> calls
  answer on the object at \<open>path\<close>. The dictionary is a map from keys to values. The
  line printed when the calls raise is not part of the result.
\<close>

definition get_properties ::
  "serial_link list \<Rightarrow> nat list \<Rightarrow> string \<Rightarrow> (int \<times> int) option \<Rightarrow> (string \<rightharpoonup> pyval) option" where
  "get_properties h links path props =
     (case props of
        None \<Rightarrow> None
      | Some (e, network_id) \<Rightarrow>
          let result = [''eid'' \<mapsto> PInt e, ''network_id'' \<mapsto> PInt network_id, ''path'' \<mapsto> PStr path]
          in (case get_link_from_eid h links e of
                None \<Rightarrow> Some result
              | Some serial_link \<Rightarrow>
                  Some (result(''link_name'' \<mapsto> str_or_none (link_name (h ! serial_link)),
                               ''device_path'' \<mapsto> str_or_none (device_path (h ! serial_link))))))"

text \<open>\<open>sub in s\<close> on strings, and \<open>path.endswith('/')\<close>.\<close>

fun contains :: "string \<Rightarrow> string \<Rightarrow> bool" where
  "contains sub [] = startswith [] sub"
| "contains sub (c # r) = (startswith (c # r) sub \<or> contains sub r)"

definition endswith_slash :: "string \<Rightarrow> bool" where
  "endswith_slash path = (path \<noteq> [] \<and> last path = CHR ''/'')"

fun node_name :: "dbus_node \<Rightarrow> string" where
  "node_name (Node n p cs) = n"

fun node_props :: "dbus_node \<Rightarrow> (int \<times> int) option" where
  "node_props (Node n p cs) = p"

text \<open>
  \<open>_walk_tree(self, path)\<close>, with the object found at \<open>path\<close>. A dictionary is
  true in \<open>if props\<close> when it is not empty, which the three keys make it.
\<close>

fun walk_tree ::
  "serial_link list \<Rightarrow> nat list \<Rightarrow> string \<Rightarrow> dbus_node \<Rightarrow> (string \<rightharpoonup> pyval) list" where
  "walk_tree h links path (Node n p children) =
     concat (map (\<lambda>child.
        let child_path = (if \<not> endswith_slash path then path @ ''/'' @ node_name child
                          else path @ node_name child)
        in if contains ''/endpoints/'' child_path
           then (case get_properties h links child_path (node_props child) of
                   None \<Rightarrow> []
                 | Some props \<Rightarrow> [props])
           else walk_tree h links child_path child) children)"

definition dbus_root :: string where
  "dbus_root = ''/au/com/codeconstruct/mctp1''"

definition discover_endpoints ::
  "serial_link list \<Rightarrow> nat list \<Rightarrow> dbus_node \<Rightarrow> (string \<rightharpoonup> pyval) list" where
  "discover_endpoints h links root = walk_tree h links dbus_root root"

text \<open>
  The loop that waits for the enumeration to settle. \<open>count k\<close> is the number of
  endpoints the k-th call of \<open>discover_endpoints\<close> returns (\<open>None\<close> where the
  call raises), \<open>took k\<close> the milliseconds the k-th round takes apart from
  \<open>time.sleep(1)\<close>, \<open>now\<close> the milliseconds since \<open>start_time\<close>. The result
  is the index of the discovery at which the loop leaves by \<open>break\<close>, or the error
  raised. Each round adds a second, so the loop ends.
\<close>

function stabilize ::
  "(nat \<Rightarrow> nat option) \<Rightarrow> (nat \<Rightarrow> nat) \<Rightarrow> nat \<Rightarrow> int \<Rightarrow> nat \<Rightarrow> error + nat" where
  "stabilize count took k previous_count now =
     (case count k of
        None \<Rightarrow> Inl DBusError
      | Some n \<Rightarrow>
          let current_count = int n;
              now1 = now + took k
          in if current_count = previous_count then Inr k
             else if now1 > 30000 then Inl StabilizationTimeout
             else stabilize count took (Suc k) current_count (now1 + 1000))"
  by pat_completeness auto
termination
  by (relation "measure (\<lambda>(count, took, k, previous_count, now). 30001 - now)") auto

declare stabilize.simps [simp del]

text \<open>
  The device paths matched by the patterns. \<open>list(set(...))\<close> drops duplicates; the
  order of the result is left open by Python and is not used by any statement below.
\<close>

definition matched_files :: "world \<Rightarrow> string list \<Rightarrow> string list" where
  "matched_files w args = foldl (\<lambda>file_list filespec. remdups (file_list @ glob w filespec)) [] args"

text \<open>The loop that constructs one link for each device path and appends it to \<open>self._serial_links\<close>.\<close>

fun open_links :: "world \<Rightarrow> nat \<Rightarrow> string list \<Rightarrow> process \<Rightarrow> (error + unit) \<times> process" where
  "open_links w self [] st = ok st"
| "open_links w self (file_path # rest) st =
     (case link_init (link_env_of w file_path) file_path (eid_range (controllers st ! self)) st of
        (Inl err, st1) \<Rightarrow> (Inl err, st1)
      | (Inr link, st1) \<Rightarrow>
          open_links w self rest
            (upd_controller self (\<lambda>c. c\<lparr>serial_links := serial_links c @ [link]\<rparr>) st1))"

text \<open>
  \<open>MctpBusController.close(self)\<close>. \<open>kills l\<close> is what \<open>os.kill\<close> answers when
  the link object \<open>l\<close> is closed. An exception raised by the \<open>close()\<close> of a link
  ends the method there.
\<close>

fun close_links :: "(nat \<Rightarrow> os_error option) \<Rightarrow> nat list \<Rightarrow> process \<Rightarrow> (error + unit) \<times> process" where
  "close_links kills [] st = ok st"
| "close_links kills (link # rest) st =
     and_then (link_close (kills link) link st) (close_links kills rest)"

definition controller_close ::
  "(nat \<Rightarrow> os_error option) \<Rightarrow> nat \<Rightarrow> process \<Rightarrow> (error + unit) \<times> process" where
  "controller_close kills self st =
     and_then (close_links kills (serial_links (controllers st ! self)) st)
       (\<lambda>st1. let st2 = upd_controller self (\<lambda>c. c\<lparr>serial_links := []\<rparr>) st1;
                   st3 = emit ServiceStop st2
               in ok (if instance_slot st3 \<noteq> None then st3\<lparr>instance_slot := None\<rparr> else st3))"

text \<open>
  \<open>MctpBusController.__init__(self, config_file_path, *args)\<close>, in the two halves
  its comments mark. The result is the new controller (its index among the controller
  objects) or the error raised, with the state of the process at that moment.

  The second half, from \<open># Start mctpd using system bus\<close> to the end: the daemon is
  stopped if it is active and started, the loop waits for the enumeration to settle,
  and the controller is put in the slot. Only the timeout that the loop itself raises
  is preceded by \<open>self.close()\<close>.
\<close>

definition start_and_stabilize :: "world \<Rightarrow> nat \<Rightarrow> process \<Rightarrow> (error + nat) \<times> process" where
  "start_and_stabilize w self st2 =
     (case service_active w of
        None \<Rightarrow> (Inl ServiceCheckFailed, st2)
      | Some active \<Rightarrow>
          let st3 = (if active then emit ServiceStop st2 else st2);
              st4 = emit ServiceStart st3
          in (case stabilize
                     (\<lambda>k. map_option
                             (\<lambda>root. length (discover_endpoints (heap st4)
                                        (serial_links (controllers st4 ! self)) root))
                             (bus_at w k))
                     (poll_ms w) 0 (- 1) 0 of
                Inr k \<Rightarrow> (Inr self, st4\<lparr>instance_slot := Some self\<rparr>)
              | Inl err \<Rightarrow>
                  if err = StabilizationTimeout
                  then (case controller_close (kill_answer w) self st4 of
                          (Inl err1, st5) \<Rightarrow> (Inl err1, st5)
                        | (Inr u1, st5) \<Rightarrow> (Inl StabilizationTimeout, st5))
                  else (Inl err, st4)))"

text \<open>The first half, up to the loop that constructs the links.\<close>

definition controller_init ::
  "world \<Rightarrow> string \<Rightarrow> string list \<Rightarrow> process \<Rightarrow> (error + nat) \<times> process" where
  "controller_init w config_file_path args st =
    (let self = length (controllers st);
         st0 = st\<lparr>controllers := controllers st @ [\<lparr>eid_range = [], serial_links = []\<rparr>]\<rparr>
     in if instance_slot st0 \<noteq> None then (Inl SecondController, st0)
        else if \<not> length args > 0 then (Inl NoSearchPatterns, st0)
        else
          let st1 = configure_eid_range w self config_file_path st0;
              file_list = matched_files w args
          in if \<not> length file_list > 0 then (Inl NoDevicesMatch, st1)
             else if \<not> length file_list \<le> length (eid_range (controllers st1 ! self))
             then (Inl NotEnoughEids, st1)
             else
               (case open_links w self file_list st1 of
                  (Inl err, st2) \<Rightarrow> (Inl err, st2)
                | (Inr u, st2) \<Rightarrow> start_and_stabilize w self st2))"

text \<open>
  The value of \<open>self._eid_range\<close> after \<open>_configure_eid_range\<close> has run on a new
  controller: the parsed range, or the empty list the attribute was initialised with.
\<close>

definition configured_range :: "world \<Rightarrow> string \<Rightarrow> int list" where
  "configured_range w config_file_path =
     (case config_file w config_file_path of
        None \<Rightarrow> []
      | Some lines \<Rightarrow> (case scan_lines lines of Inl err \<Rightarrow> [] | Inr r \<Rightarrow> r))"

text \<open>The events that a step from \<open>st\<close> to \<open>st1\<close> added to the trace.\<close>

definition new_events :: "process \<Rightarrow> process \<Rightarrow> event list" where
  "new_events st st1 = drop (length (trace st)) (trace st1)"






text \<open>
  What \<open>_get_properties\<close> promises about a dictionary: it holds the EID, and it holds
  the interface name and device path of the link \<open>_get_link_from_eid\<close> finds for that
  EID, or neither key when there is no such link.
\<close>

definition correlated :: "serial_link list \<Rightarrow> nat list \<Rightarrow> (string \<rightharpoonup> pyval) \<Rightarrow> bool" where
  "correlated h links r \<longleftrightarrow>
     (\<exists>e. r ''eid'' = Some (PInt e) \<and>
        (case get_link_from_eid h links e of
           None \<Rightarrow> r ''link_name'' = None \<and> r ''device_path'' = None
         | Some l \<Rightarrow> r ''link_name'' = Some (str_or_none (link_name (h ! l))) \<and>
                     r ''device_path'' = Some (str_or_none (device_path (h ! l)))))"

section \<open>Raw message transmission (send_raw_mctp_message, send_mctp_datagram)\<close>

text \<open>
  What the socket layer answers: the byte order of the machine, whether
  \<open>socket.socket(AF_MCTP, SOCK_DGRAM, 0)\<close> returns a socket, and whether
  \<open>sock.sendto(payload, sockaddr)\<close> returns for a given payload and address.
\<close>

datatype byteorder = LittleEndian | BigEndian

record net =
  byteorder :: byteorder
  socket_ok :: bool
  sendto_ok :: "8 word list \<Rightarrow> 8 word list \<Rightarrow> bool"

definition AF_MCTP :: int where
  "AF_MCTP = 45"

text \<open>
  \<open>struct.pack("HHBBBBB", ...)\<close> in native mode: two unsigned 16-bit values and five
  unsigned bytes, which need no padding. A value out of range raises \<open>struct.error\<close>,
  here \<open>None\<close>.
\<close>

definition pack_H :: "byteorder \<Rightarrow> int \<Rightarrow> 8 word list option" where
  "pack_H bo v =
     (if 0 \<le> v \<and> v \<le> 65535
      then Some (case bo of
                   LittleEndian \<Rightarrow> [word_of_int v, word_of_int (v div 256)]
                 | BigEndian \<Rightarrow> [word_of_int (v div 256), word_of_int v])
      else None)"

definition pack_B :: "int \<Rightarrow> 8 word list option" where
  "pack_B v = (if 0 \<le> v \<and> v \<le> 255 then Some [word_of_int v] else None)"

definition pack_HHBBBBB ::
  "byteorder \<Rightarrow> int \<Rightarrow> int \<Rightarrow> int \<Rightarrow> int \<Rightarrow> int \<Rightarrow> int \<Rightarrow> int \<Rightarrow> 8 word list option" where
  "pack_HHBBBBB bo h1 h2 b1 b2 b3 b4 b5 =
     map_option concat
       (those [pack_H bo h1, pack_H bo h2, pack_B b1, pack_B b2, pack_B b3, pack_B b4, pack_B b5])"

text \<open>
  The body shared by the two methods, which differ in the address record and in the
  text they print: any exception of the \<open>try\<close> block is caught, the text is printed
  (followed by the exception, which is not modelled) and \<open>False\<close> is returned.
\<close>

definition send_with ::
  "string \<Rightarrow> net \<Rightarrow> 8 word list option \<Rightarrow> 8 word list \<Rightarrow> bool \<times> event list" where
  "send_with msg n sockaddr payload =
     (if \<not> socket_ok n then (False, [Print msg])
      else (case sockaddr of
              None \<Rightarrow> (False, [Print msg])
            | Some sa \<Rightarrow>
                if sendto_ok n payload sa then (True, [SendTo payload sa])
                else (False, [Print msg])))"

definition raw_sockaddr :: "byteorder \<Rightarrow> int \<Rightarrow> int \<Rightarrow> 8 word list option" where
  "raw_sockaddr bo network_id destination_eid =
     pack_HHBBBBB bo AF_MCTP network_id 0 0 destination_eid 1 1"

definition datagram_sockaddr ::
  "byteorder \<Rightarrow> int \<Rightarrow> int \<Rightarrow> int \<Rightarrow> int \<Rightarrow> 8 word list option" where
  "datagram_sockaddr bo network_id destination_eid message_type tag_owner =
     pack_HHBBBBB bo AF_MCTP network_id 0 0 destination_eid tag_owner message_type"

definition send_raw_mctp_message ::
  "net \<Rightarrow> int \<Rightarrow> int \<Rightarrow> 8 word list \<Rightarrow> bool \<times> event list" where
  "send_raw_mctp_message n network_id destination_eid payload =
     send_with ''Error sending raw MCTP message: '' n
       (raw_sockaddr (byteorder n) network_id destination_eid) payload"

definition send_mctp_datagram ::
  "net \<Rightarrow> int \<Rightarrow> int \<Rightarrow> int \<Rightarrow> int \<Rightarrow> 8 word list \<Rightarrow> bool \<times> event list" where
  "send_mctp_datagram n network_id destination_eid message_type tag_owner payload =
     send_with ''Error sending MCTP datagram: '' n
       (datagram_sockaddr (byteorder n) network_id destination_eid message_type tag_owner) payload"

text \<open>A link object whose four attributes are None: a new one, or a closed one.\<close>

definition blank :: serial_link where
  "blank = \<lparr>eid = None, link_pid = None, link_name = None, device_path = None\<rparr>"

section \<open>Example inputs\<close>

text \<open>
  Answers of the operating system under which a link comes up, under which the device
  path is missing, and under which no interface appears after the device was bound.
\<close>

definition env_ok :: "nat \<Rightarrow> string \<Rightarrow> link_env" where
  "env_ok p name = \<lparr>path_exists = True, pid = p, new_interface = Some name,
     up_returncode = 0, add_returncode = 0, pick = 0\<rparr>"

definition env_no_path :: link_env where
  "env_no_path = \<lparr>path_exists = False, pid = 0, new_interface = None,
     up_returncode = 0, add_returncode = 0, pick = 0\<rparr>"

definition env_no_interface :: "nat \<Rightarrow> link_env" where
  "env_no_interface p = \<lparr>path_exists = True, pid = p, new_interface = None,
     up_returncode = 0, add_returncode = 0, pick = 0\<rparr>"

definition example_ops :: "op list" where
  "example_ops =
     [Open ''/dev/ttyUSB0'' (env_ok 100 ''mctpserial0''),
      Open ''/dev/ttyUSB1'' (env_ok 101 ''mctpserial1''),
      Open ''/dev/ttyUSB2'' (env_no_interface 102),
      Close 0 None,
      Open ''/dev/ttyUSB3'' (env_ok 103 ''mctpserial3'')]"

text \<open>
  A daemon that exposes the first \<open>n\<close> of the endpoints 8, 9 and 20 on network 1, and
  a machine with a configuration file, two serial devices and a running daemon on which
  a second endpoint shows up after the first discovery.
\<close>

definition example_bus :: "nat \<Rightarrow> dbus_node" where
  "example_bus n =
     Node ''mctp1'' None
       [Node ''interfaces'' None [Node ''mctpserial0'' None []],
        Node ''networks'' None
          [Node ''1'' None
            [Node ''endpoints'' None
               (map (\<lambda>e. Node (if e = 8 then ''8'' else if e = 9 then ''9'' else ''20'') (Some (e, 1)) [])
                    (take n [8, 9, 20]))]]]"

definition example_world :: world where
  "example_world = \<lparr>
     config_file = (\<lambda>p. if p = ''/etc/mctpd.conf''
                         then Some [''mode = bus-owner'', ''dynamic_eid_range = [8, 254]''] else None),
     glob = (\<lambda>pat. if pat = ''/dev/ttyUSB?'' then [''/dev/ttyUSB0'', ''/dev/ttyUSB1''] else []),
     link_env_of = (\<lambda>dev. if dev = ''/dev/ttyUSB0'' then env_ok 100 ''mctpserial0''
                            else env_ok 101 ''mctpserial1''),
     service_active = Some True,
     bus_at = (\<lambda>k. Some (example_bus (min k 2))),
     poll_ms = (\<lambda>k. 200),
     kill_answer = (\<lambda>l. None)\<rparr>"

text \<open>The same machine with other lines in its configuration file.\<close>

definition world_with :: "string list \<Rightarrow> world" where
  "world_with lines = example_world\<lparr>config_file := (\<lambda>p. Some lines)\<rparr>"


text \<open>A heap with one live link on EID 8.\<close>

definition example_heap :: "serial_link list" where
  "example_heap = [\<lparr>eid = Some 8, link_pid = Some 100, link_name = Some ''mctpserial0'',
                     device_path = Some ''/dev/ttyUSB0''\<rparr>]"









subsection \<open>The invariant of the pool\<close>

text \<open>
  What every state reached by constructing and closing links satisfies: neither class
  list holds an element twice, the allocated EIDs lie in the configured range and are
  exactly the EIDs held by link objects, the registered links are exactly the objects
  holding an EID, and no EID is held by two objects.
\<close>

definition pool_inv :: "int list \<Rightarrow> process \<Rightarrow> bool" where
  "pool_inv rng st \<longleftrightarrow>
     distinct (allocated_eids st) \<and> distinct (assigned_links st) \<and>
     set (allocated_eids st) \<subseteq> set rng \<and>
     set (allocated_eids st) = {e. \<exists>i<length (heap st). eid (heap st ! i) = Some e} \<and>
     set (assigned_links st) = {i. i < length (heap st) \<and> eid (heap st ! i) \<noteq> None} \<and>
     (\<forall>i<length (heap st). \<forall>j<length (heap st).
        eid (heap st ! i) = eid (heap st ! j) \<longrightarrow> eid (heap st ! i) \<noteq> None \<longrightarrow> i = j)"

section \<open>Properties of the link manager\<close>

lemma and_then_ok [simp]: "and_then (ok st) f = f st"
  by (simp add: and_then_def ok_def)

lemma clear_blank [simp]:
  "(l::serial_link)\<lparr>link_name := None, eid := None, link_pid := None, device_path := None\<rparr> = blank"
  by (cases l) (simp add: blank_def)

lemma link_close_eq:
  assumes "link_pid (heap st ! self) = None \<or> kill = None"
  shows "link_close kill self st =
     ok (st\<lparr>trace := trace st @ (case link_pid (heap st ! self) of Some p \<Rightarrow> [Kill p] | None \<Rightarrow> []),
            assigned_links := remove1 self (assigned_links st),
            allocated_eids := (case eid (heap st ! self) of None \<Rightarrow> allocated_eids st
                               | Some e \<Rightarrow> remove1 e (allocated_eids st)),
            heap := (heap st)[self := blank]\<rparr>)"
  using assms
  by (cases st)
     (auto simp: link_close_def close_kill_def close_unregister_def close_release_def
      close_clear_def py_remove_def emit_def upd_link_def remove1_idem
      split: option.splits)

lemma link_close_abort:
  "link_pid (heap st ! self) = Some p \<Longrightarrow> link_close (Some err) self st = (Inl (OSError err), st)"
  by (simp add: link_close_def close_kill_def and_then_def)

lemma link_close_cases:
  "(link_pid (heap st ! self) = None \<or> kill = None) \<or>
   (\<exists>p err. link_pid (heap st ! self) = Some p \<and> kill = Some err)"
  by (cases "link_pid (heap st ! self)"; cases kill) auto

lemma pick_in_remaining:
  "0 < length (remaining_eids allowed al) \<Longrightarrow>
   remaining_eids allowed al ! (k mod length (remaining_eids allowed al)) \<in> set allowed - set al"
proof -
  assume h: "0 < length (remaining_eids allowed al)"
  then have "remaining_eids allowed al ! (k mod length (remaining_eids allowed al))
             \<in> set (remaining_eids allowed al)"
    by (intro nth_mem) simp
  then show ?thesis by (auto simp: remaining_eids_def)
qed

lemma link_init_failure:
  assumes "link_init env dev allowed st = (Inl err, st')"
  shows "\<exists>l. heap st' = heap st @ [l] \<and> eid l = None \<and>
             allocated_eids st' = allocated_eids st \<and> assigned_links st' = assigned_links st
             \<and> controllers st' = controllers st \<and> instance_slot st' = instance_slot st"
  using assms
  by (auto simp: link_init_def Let_def upd_link_def emit_def split: if_splits option.splits)

lemma link_init_success:
  assumes "link_init env dev allowed st = (Inr self, st')"
  shows "\<exists>l e. self = length (heap st) \<and> heap st' = heap st @ [l] \<and> eid l = Some e \<and>
             e \<in> set allowed \<and> e \<notin> set (allocated_eids st) \<and>
             allocated_eids st' = allocated_eids st @ [e] \<and>
             assigned_links st' = assigned_links st @ [self]
             \<and> controllers st' = controllers st \<and> instance_slot st' = instance_slot st"
  using assms pick_in_remaining [of allowed "allocated_eids st" "pick env"]
  by (auto simp: link_init_def Let_def upd_link_def emit_def split: if_splits option.splits)

lemma pool_inv_initial: "pool_inv rng initial"
  by (simp add: pool_inv_def initial_def)

lemma pool_inv_link_init:
  assumes inv: "pool_inv rng st"
  shows "pool_inv rng (snd (link_init env dev rng st))"
proof (cases "link_init env dev rng st")
  case (Pair r st')
  show ?thesis
  proof (cases r)
    case (Inl err)
    with Pair link_init_failure [of env dev rng st err st']
    obtain l where l: "heap st' = heap st @ [l]" "eid l = None"
      "allocated_eids st' = allocated_eids st" "assigned_links st' = assigned_links st"
      by auto
    with inv have "pool_inv rng st'"
      unfolding pool_inv_def
      by (auto simp: nth_append less_Suc_eq)
    with Pair show ?thesis by simp
  next
    case (Inr self)
    with Pair link_init_success [of env dev rng st self st']
    obtain l e where l: "self = length (heap st)" "heap st' = heap st @ [l]" "eid l = Some e"
      "e \<in> set rng" "e \<notin> set (allocated_eids st)"
      "allocated_eids st' = allocated_eids st @ [e]"
      "assigned_links st' = assigned_links st @ [self]"
      by auto
    with inv have "pool_inv rng st'"
      unfolding pool_inv_def
      by (auto simp: nth_append less_Suc_eq)
    with Pair show ?thesis by simp
  qed
qed

lemma pool_inv_link_close_ok:
  assumes inv: "pool_inv rng st" and self: "self < length (heap st)"
    and k: "link_pid (heap st ! self) = None \<or> kill = None"
  shows "pool_inv rng (snd (link_close kill self st))"
proof -
  let ?h = "heap st" and ?al = "allocated_eids st" and ?as = "assigned_links st"
  let ?st' = "snd (link_close kill self st)"
  let ?al' = "case eid (?h ! self) of None \<Rightarrow> ?al | Some e \<Rightarrow> remove1 e ?al"
  have h': "heap ?st' = ?h[self := blank]"
    and al': "allocated_eids ?st' = ?al'"
    and as': "assigned_links ?st' = remove1 self ?as"
    by (simp_all add: link_close_eq [OF k] ok_def)
  from inv have d1: "distinct ?al" and d2: "distinct ?as" and sub: "set ?al \<subseteq> set rng"
    and al: "set ?al = {e. \<exists>i<length ?h. eid (?h ! i) = Some e}"
    and as: "set ?as = {i. i < length ?h \<and> eid (?h ! i) \<noteq> None}"
    and inj: "\<And>i j. i < length ?h \<Longrightarrow> j < length ?h \<Longrightarrow> eid (?h ! i) = eid (?h ! j)
                \<Longrightarrow> eid (?h ! i) \<noteq> None \<Longrightarrow> i = j"
    by (auto simp: pool_inv_def)
  have eb: "eid blank = None" by (simp add: blank_def)
  have nth': "\<And>i. i < length ?h \<Longrightarrow> eid (?h[self := blank] ! i) = (if i = self then None else eid (?h ! i))"
    using self by (simp add: nth_list_update eb)
  have c1: "distinct ?al'" using d1 by (simp split: option.splits)
  have c2: "distinct (remove1 self ?as)" using d2 by simp
  have c3: "set ?al' \<subseteq> set rng" using sub d1 by (auto split: option.splits)
  have ex': "\<And>e. (\<exists>i<length ?h. eid (?h[self := blank] ! i) = Some e)
                 = (\<exists>i<length ?h. i \<noteq> self \<and> eid (?h ! i) = Some e)"
    by (simp add: nth' cong: conj_cong) blast
  have c4: "set ?al' = {e. \<exists>i<length ?h. eid (?h[self := blank] ! i) = Some e}"
  proof (cases "eid (?h ! self)")
    case None
    then have "\<And>e. (\<exists>i<length ?h. i \<noteq> self \<and> eid (?h ! i) = Some e)
                  = (\<exists>i<length ?h. eid (?h ! i) = Some e)"
      by auto
    with None al show ?thesis unfolding ex' by simp
  next
    case (Some e)
    have "\<And>e'. (\<exists>i<length ?h. i \<noteq> self \<and> eid (?h ! i) = Some e')
                  = (e' \<noteq> e \<and> (\<exists>i<length ?h. eid (?h ! i) = Some e'))"
      using Some self inj by (metis option.distinct(1) option.inject)
    with Some al d1 show ?thesis unfolding ex' by auto
  qed
  have c5: "set (remove1 self ?as) = {i. i < length ?h \<and> eid (?h[self := blank] ! i) \<noteq> None}"
    using as d2 by (auto simp: nth' cong: conj_cong)
  have c6: "\<forall>i<length ?h. \<forall>j<length ?h.
        eid (?h[self := blank] ! i) = eid (?h[self := blank] ! j) \<longrightarrow>
        eid (?h[self := blank] ! i) \<noteq> None \<longrightarrow> i = j"
    using inj by (auto simp: nth' split: if_splits)
  show ?thesis
    unfolding pool_inv_def h' al' as' using c1 c2 c3 c4 c5 c6 by simp
qed

lemma pool_inv_link_close:
  assumes inv: "pool_inv rng st" and self: "self < length (heap st)"
  shows "pool_inv rng (snd (link_close kill self st))"
  using link_close_cases [of st self kill]
proof
  assume "link_pid (heap st ! self) = None \<or> kill = None"
  then show ?thesis by (rule pool_inv_link_close_ok [OF inv self])
next
  assume "\<exists>p err. link_pid (heap st ! self) = Some p \<and> kill = Some err"
  then show ?thesis using inv by (auto simp: link_close_abort)
qed

lemma pool_inv_step: "pool_inv rng st \<Longrightarrow> pool_inv rng (step rng st x)"
  by (cases x) (simp_all add: pool_inv_link_init pool_inv_link_close)

lemma pool_inv_foldl: "pool_inv rng st \<Longrightarrow> pool_inv rng (foldl (step rng) st ops)"
  by (induction ops arbitrary: st) (simp_all add: pool_inv_step)

lemma pool_inv_run: "pool_inv rng (run rng ops)"
  unfolding run_def by (rule pool_inv_foldl [OF pool_inv_initial])

lemmas eval_defs = run_def example_ops_def env_ok_def env_no_path_def env_no_interface_def
  link_init_def Let_def remaining_eids_def upd_link_def emit_def initial_def link_close_def
  close_kill_def close_unregister_def close_release_def close_clear_def py_remove_def
  and_then_def ok_def

text \<open>
  Claim C1. Whatever links are constructed and closed against the configured range, in
  whatever order and with whatever answers of the operating system: the allocated EIDs
  lie in the range, none is allocated twice, no two link objects hold the same EID, and
  an EID held by a link is allocated with the link registered.
\<close>

theorem eid_pool_invariant:
  "set (allocated_eids (run rng ops)) \<subseteq> set rng \<and>
   distinct (allocated_eids (run rng ops)) \<and>
   (\<forall>i<length (heap (run rng ops)). \<forall>j<length (heap (run rng ops)). \<forall>e.
      eid (heap (run rng ops) ! i) = Some e \<longrightarrow> eid (heap (run rng ops) ! j) = Some e \<longrightarrow> i = j) \<and>
   (\<forall>i<length (heap (run rng ops)). \<forall>e.
      eid (heap (run rng ops) ! i) = Some e \<longrightarrow>
        e \<in> set (allocated_eids (run rng ops)) \<and> i \<in> set (assigned_links (run rng ops)))"
  using pool_inv_run [of rng ops] unfolding pool_inv_def
  apply (intro conjI)
     apply blast
    apply blast
   apply (metis option.distinct(1))
  apply blast
  done

text \<open>
  Claim C7, as amended. The constructor looks for a free EID before it looks at the
  device path. For a device path that does not exist it fails with the assertion on the
  path when some allowed EID is still free, and with the assertion on the exhausted
  EIDs when none is; either way nothing is spawned and nothing is allocated.
\<close>

theorem open_missing_path:
  assumes "\<not> path_exists env"
  shows "fst (link_init env dev allowed_eids st) =
           (if set allowed_eids \<subseteq> set (allocated_eids st)
            then Inl EidsExhausted else Inl DevicePathNotFound) \<and>
         trace (snd (link_init env dev allowed_eids st)) = trace st \<and>
         allocated_eids (snd (link_init env dev allowed_eids st)) = allocated_eids st \<and>
         assigned_links (snd (link_init env dev allowed_eids st)) = assigned_links st"
proof -
  have "(remaining_eids allowed_eids (allocated_eids st) = []) =
        (set allowed_eids \<subseteq> set (allocated_eids st))"
    by (auto simp: remaining_eids_def filter_empty_conv)
  with assms show ?thesis
    by (auto simp: link_init_def Let_def)
qed


section \<open>Properties of the configuration source\<close>





lemma digits_value_snoc: "digits_value (ds @ [c]) = 10 * digits_value ds + (of_char c - 48)"
  by (simp add: digits_value_def)























lemma digits_value_nines: "digits_value (replicate n CHR ''9'') = 10 ^ n - 1"
proof (induction n)
  case 0
  then show ?case by (simp add: digits_value_def)
next
  case (Suc n)
  have "replicate (Suc n) CHR ''9'' = replicate n CHR ''9'' @ [CHR ''9'']"
    by (simp add: replicate_append_same)
  then show ?case using Suc by (simp add: digits_value_snoc)
qed





section \<open>Properties of the controller\<close>

lemma configure_fresh:
  "configure_eid_range w (length cs) p (st\<lparr>controllers := cs @ [\<lparr>eid_range = [], serial_links = []\<rparr>]\<rparr>)
     = st\<lparr>controllers := cs @ [\<lparr>eid_range = configured_range w p, serial_links = []\<rparr>],
           trace := trace (configure_eid_range w (length cs) p st)\<rparr>"
  by (simp add: configure_eid_range_def configured_range_def emit_def upd_controller_def
      split: option.splits sum.splits)

lemma configure_prints:
  "\<exists>msgs. trace (configure_eid_range w self p st) = trace st @ map Print msgs"
proof (cases "config_file w p")
  case None
  then have "trace (configure_eid_range w self p st)
      = trace st @ map Print [''Error: File '' @ [CHR 0x27] @ p @ [CHR 0x27] @ '' not found.'']"
    by (simp add: configure_eid_range_def emit_def)
  then show ?thesis by blast
next
  case (Some lines)
  show ?thesis
  proof (cases "scan_lines lines")
    case (Inl err)
    with Some have "trace (configure_eid_range w self p st)
      = trace st @ map Print [''Error when reading '' @ p @ '': '' @ exception_text err p]"
      by (simp add: configure_eid_range_def emit_def)
    then show ?thesis by blast
  next
    case (Inr r)
    with Some have "trace (configure_eid_range w self p st) = trace st @ map Print []"
      by (simp add: configure_eid_range_def upd_controller_def)
    then show ?thesis by blast
  qed
qed

lemma controller_init_guard:
  "instance_slot st \<noteq> None \<Longrightarrow>
   controller_init w p args st
     = (Inl SecondController,
        st\<lparr>controllers := controllers st @ [\<lparr>eid_range = [], serial_links = []\<rparr>]\<rparr>)"
  by (simp add: controller_init_def Let_def)



lemma controller_init_not_enough:
  assumes "instance_slot st = None"
    and "length (configured_range w p) < length (matched_files w args)"
  shows "controller_init w p args st
     = (Inl NotEnoughEids,
        st\<lparr>controllers := controllers st @ [\<lparr>eid_range = configured_range w p, serial_links = []\<rparr>],
           trace := trace (configure_eid_range w (length (controllers st)) p st)\<rparr>)"
proof -
  from assms(2) have "matched_files w args \<noteq> []" by auto
  then have "args \<noteq> []" by (auto simp: matched_files_def)
  with assms \<open>matched_files w args \<noteq> []\<close> show ?thesis
    by (simp add: controller_init_def Let_def configure_fresh)
qed






lemma fst_ok [simp]: "fst (ok st) = Inr ()" and snd_ok [simp]: "snd (ok st) = st"
  by (simp_all add: ok_def)











text \<open>
  Claim C5. When the patterns match more device paths than the configured range has
  EIDs, the constructor fails: in a process without a controller with the assertion on
  the number of EIDs (and in one that has a controller with the assertion on the second
  controller, which comes first). No link object has been created, nothing is
  registered or allocated, the slot is as it was, and the only events are lines printed
  while the configuration was read: no device was bound and the daemon was neither
  stopped nor started.
\<close>

theorem not_enough_eids_aborts_early:
  assumes "length (configured_range w p) < length (matched_files w args)"
  shows "fst (controller_init w p args st)
           = (if instance_slot st = None then Inl NotEnoughEids else Inl SecondController) \<and>
         heap (snd (controller_init w p args st)) = heap st \<and>
         assigned_links (snd (controller_init w p args st)) = assigned_links st \<and>
         allocated_eids (snd (controller_init w p args st)) = allocated_eids st \<and>
         instance_slot (snd (controller_init w p args st)) = instance_slot st \<and>
         take (length (trace st)) (trace (snd (controller_init w p args st))) = trace st \<and>
         list_all is_print (new_events st (snd (controller_init w p args st)))"
proof (cases "instance_slot st = None")
  case False
  then show ?thesis by (simp add: controller_init_guard new_events_def)
next
  case True
  obtain msgs where m: "trace (configure_eid_range w (length (controllers st)) p st)
      = trace st @ map Print msgs"
    using configure_prints by blast
  have "list_all is_print (map Print msgs)" by (simp add: list_all_iff)
  with m True show ?thesis
    by (simp add: controller_init_not_enough [OF True assms] new_events_def)
qed


section \<open>Properties of the stabilization loop\<close>











section \<open>Properties of the discovery and of the two send methods\<close>

lemma get_link_from_eid_None:
  "(get_link_from_eid h links e = None) = (\<forall>l\<in>set links. eid (h ! l) \<noteq> Some e)"
  by (induction links) auto

lemma get_link_from_eid_Some:
  "get_link_from_eid h links e = Some l \<Longrightarrow> l \<in> set links \<and> eid (h ! l) = Some e"
  by (induction links) (auto split: if_splits)

lemma get_properties_correlated:
  "get_properties h links path props = Some r \<Longrightarrow> correlated h links r"
  by (auto simp: get_properties_def correlated_def Let_def split: option.splits prod.splits)

lemma walk_tree_correlated:
  "r \<in> set (walk_tree h links path node) \<Longrightarrow> correlated h links r"
proof (induction h links path node arbitrary: r rule: walk_tree.induct)
  case (1 h links path n p children)
  from "1.prems" obtain child where c: "child \<in> set children"
    and r: "r \<in> set (let child_path = (if \<not> endswith_slash path then path @ ''/'' @ node_name child
                          else path @ node_name child)
        in if contains ''/endpoints/'' child_path
           then (case get_properties h links child_path (node_props child) of
                   None \<Rightarrow> []
                 | Some props \<Rightarrow> [props])
           else walk_tree h links child_path child)"
    by auto
  show ?case
  proof (cases "contains ''/endpoints/'' (if \<not> endswith_slash path then path @ ''/'' @ node_name child
                          else path @ node_name child)")
    case True
    with r show ?thesis
      by (auto simp: Let_def split: option.splits
          dest: get_properties_correlated get_properties_correlated [OF sym])
  next
    case False
    with r "1.IH" [OF c refl False] show ?thesis
      by (simp add: Let_def)
  qed
qed

text \<open>
  Claim C9. Every dictionary that \<open>discover_endpoints\<close> returns holds the EID of
  its endpoint. If a link of the controller holds that EID, the dictionary holds the
  interface name and the device path of such a link; if none does, it holds neither
  key.
\<close>

theorem endpoint_correlation:
  assumes "r \<in> set (discover_endpoints h links root)"
  shows "\<exists>e. r ''eid'' = Some (PInt e) \<and>
           ((\<exists>l\<in>set links. eid (h ! l) = Some e) \<longrightarrow>
              (\<exists>l\<in>set links. eid (h ! l) = Some e \<and>
                 r ''link_name'' = Some (str_or_none (link_name (h ! l))) \<and>
                 r ''device_path'' = Some (str_or_none (device_path (h ! l))))) \<and>
           ((\<forall>l\<in>set links. eid (h ! l) \<noteq> Some e) \<longrightarrow>
              r ''link_name'' = None \<and> r ''device_path'' = None)"
proof -
  from assms have "correlated h links r"
    unfolding discover_endpoints_def by (rule walk_tree_correlated)
  then obtain e where e: "r ''eid'' = Some (PInt e)"
    and c: "case get_link_from_eid h links e of
           None \<Rightarrow> r ''link_name'' = None \<and> r ''device_path'' = None
         | Some l \<Rightarrow> r ''link_name'' = Some (str_or_none (link_name (h ! l))) \<and>
                     r ''device_path'' = Some (str_or_none (device_path (h ! l)))"
    unfolding correlated_def by blast
  show ?thesis
  proof (cases "get_link_from_eid h links e")
    case None
    with c e get_link_from_eid_None [of h links e] show ?thesis by auto
  next
    case (Some l)
    with c e get_link_from_eid_Some [of h links e l] show ?thesis by auto
  qed
qed

text \<open>
  Claim C10. For every network id, destination EID and payload, and whatever the
  socket layer answers, \<open>send_raw_mctp_message\<close> and \<open>send_mctp_datagram\<close> with
  message type 1 and tag owner 1 build the same address record, return the same
  boolean and hand the same datagram to the socket. (The texts they print on failure
  differ.)
\<close>

theorem raw_message_is_datagram_1_1:
  "raw_sockaddr (byteorder n) network_id destination_eid
     = datagram_sockaddr (byteorder n) network_id destination_eid 1 1 \<and>
   fst (send_raw_mctp_message n network_id destination_eid payload)
     = fst (send_mctp_datagram n network_id destination_eid 1 1 payload) \<and>
   filter (\<lambda>e. \<not> is_print e) (snd (send_raw_mctp_message n network_id destination_eid payload))
     = filter (\<lambda>e. \<not> is_print e) (snd (send_mctp_datagram n network_id destination_eid 1 1 payload))"
  by (simp add: send_raw_mctp_message_def send_mctp_datagram_def raw_sockaddr_def
      datagram_sockaddr_def send_with_def split: option.splits)

text \<open>
  Claim C1 at five steps on the range 8 to 10: two links come up, a third construction
  times out waiting for its interface, the first link is closed and a fourth comes up
  on the EID that was freed.
\<close>

theorem eid_pool_invariant_witness:
  "set (allocated_eids (run [8, 9, 10] example_ops)) \<subseteq> set [8, 9, 10] \<and>
   (1::nat) < length (heap (run [8, 9, 10] example_ops)) \<and>
   (3::nat) < length (heap (run [8, 9, 10] example_ops)) \<and>
   eid (heap (run [8, 9, 10] example_ops) ! 1) = Some 9 \<and>
   eid (heap (run [8, 9, 10] example_ops) ! 3) = Some 8 \<and>
   9 \<in> set (allocated_eids (run [8, 9, 10] example_ops)) \<and>
   1 \<in> set (assigned_links (run [8, 9, 10] example_ops))"
  using eid_pool_invariant [of "[8, 9, 10]" example_ops]
  by (simp add: eval_defs)



text \<open>Claim C7, as amended, with both EIDs free.\<close>

theorem open_missing_path_witness:
  "\<not> path_exists env_no_path \<and>
   fst (link_init env_no_path ''/dev/ttyUSB9'' [8, 9] initial) = Inl DevicePathNotFound"
  using open_missing_path [of env_no_path "''/dev/ttyUSB9''" "[8, 9]" initial]
  by (simp add: env_no_path_def initial_def)

text \<open>
  Claim C7 as stated fails where the only allowed EID is held by a live link: the
  missing device path is then reported as an exhausted pool.
\<close>

theorem open_missing_path_counterexample:
  "\<not> path_exists env_no_path \<and>
   fst (link_init env_no_path ''/dev/ttyUSB9'' [8]
         (run [8] [Open ''/dev/ttyUSB0'' (env_ok 100 ''mctpserial0'')]))
     = Inl EidsExhausted"
  by (simp add: eval_defs)



lemmas ctrl_defs = controller_init_def start_and_stabilize_def configure_eid_range_def
  matched_files_def example_world_def world_with_def example_bus_def upd_controller_def
  controller_close_def discover_endpoints_def dbus_root_def get_properties_def
  endswith_slash_def startswith_def match_here_def is_space_def is_digit_def py_int_def
  int_max_str_digits_def digits_value_def

text \<open>Claim C5 with two devices matched and a range that holds the single EID 8.\<close>

theorem not_enough_eids_aborts_early_witness:
  "length (configured_range (world_with [''dynamic_eid_range = [8, 8]'']) ''/etc/mctpd.conf'')
     < length (matched_files (world_with [''dynamic_eid_range = [8, 8]'']) [''/dev/ttyUSB?'']) \<and>
   instance_slot initial = None \<and>
   fst (controller_init (world_with [''dynamic_eid_range = [8, 8]'']) ''/etc/mctpd.conf''
          [''/dev/ttyUSB?''] initial) = Inl NotEnoughEids \<and>
   trace (snd (controller_init (world_with [''dynamic_eid_range = [8, 8]'']) ''/etc/mctpd.conf''
          [''/dev/ttyUSB?''] initial)) = []"
  using not_enough_eids_aborts_early [of "world_with [''dynamic_eid_range = [8, 8]'']"
          "''/etc/mctpd.conf''" "[''/dev/ttyUSB?'']" initial]
  by (simp add: ctrl_defs eval_defs configured_range_def)

text \<open>
  Claim C3 at three configuration files, with two devices matched: one without the
  declaration, one whose declaration has no brackets, one with a bound of zero. Each
  time the assertion raised while reading is caught and printed, the range stays
  empty, and what the constructor raises is the assertion on the number of EIDs.
\<close>

theorem bad_config_is_swallowed:
  "controller_init (world_with [''mode = bus-owner'']) ''/etc/mctpd.conf'' [''/dev/ttyUSB?''] initial
     = (Inl NotEnoughEids,
        initial\<lparr>controllers := [\<lparr>eid_range = [], serial_links = []\<rparr>],
          trace := [Print ''Error when reading /etc/mctpd.conf: dynamic_eid_range not found in /etc/mctpd.conf'']\<rparr>) \<and>
   controller_init (world_with [''dynamic_eid_range = 8, 254'']) ''/etc/mctpd.conf'' [''/dev/ttyUSB?''] initial
     = (Inl NotEnoughEids,
        initial\<lparr>controllers := [\<lparr>eid_range = [], serial_links = []\<rparr>],
          trace := [Print ''Error when reading /etc/mctpd.conf: Error parsing dynamic_eid_range in /etc/mctpd.conf'']\<rparr>) \<and>
   controller_init (world_with [''dynamic_eid_range = [0, 254]'']) ''/etc/mctpd.conf'' [''/dev/ttyUSB?''] initial
     = (Inl NotEnoughEids,
        initial\<lparr>controllers := [\<lparr>eid_range = [], serial_links = []\<rparr>],
          trace := [Print ''Error when reading /etc/mctpd.conf: invalid values for dynamic_eid_range in /etc/mctpd.conf'']\<rparr>)"
  by (simp add: ctrl_defs eval_defs)






text \<open>
  Claim C9 on a bus with the endpoints 8 and 9 and one local link, on EID 8: the first
  dictionary names the link, the second has neither key.
\<close>

theorem endpoint_correlation_witness:
  "hd (discover_endpoints example_heap [0] (example_bus 2))
     \<in> set (discover_endpoints example_heap [0] (example_bus 2)) \<and>
   last (discover_endpoints example_heap [0] (example_bus 2))
     \<in> set (discover_endpoints example_heap [0] (example_bus 2)) \<and>
   hd (discover_endpoints example_heap [0] (example_bus 2)) ''eid'' = Some (PInt 8) \<and>
   eid (example_heap ! 0) = Some 8 \<and>
   hd (discover_endpoints example_heap [0] (example_bus 2)) ''link_name'' = Some (PStr ''mctpserial0'') \<and>
   hd (discover_endpoints example_heap [0] (example_bus 2)) ''device_path'' = Some (PStr ''/dev/ttyUSB0'') \<and>
   last (discover_endpoints example_heap [0] (example_bus 2)) ''eid'' = Some (PInt 9) \<and>
   last (discover_endpoints example_heap [0] (example_bus 2)) ''link_name'' = None \<and>
   last (discover_endpoints example_heap [0] (example_bus 2)) ''device_path'' = None"
  using endpoint_correlation [of "hd (discover_endpoints example_heap [0] (example_bus 2))"
          example_heap "[0]" "example_bus 2"]
        endpoint_correlation [of "last (discover_endpoints example_heap [0] (example_bus 2))"
          example_heap "[0]" "example_bus 2"]
  by (simp add: example_heap_def ctrl_defs)

end
